theory Spec2Isabelle
  imports
    Complex_Main
    "HOL-Library.Char_ord"
    "HOL-Library.List_Lexorder"
    "HOL-Library.Product_Lexorder"
begin

section \<open>Data model\<close>

text \<open>
  \<^verbatim>\<open>export type Language = 'mandarin' | 'cantonese';\<close>
\<close>

datatype Language = mandarin | cantonese

text \<open>
  A Firestore \<^verbatim>\<open>Timestamp\<close> is represented by the number \<^verbatim>\<open>toMillis()\<close> returns:
  milliseconds since the epoch, as an unbounded integer.
\<close>

type_synonym Timestamp = int

text \<open>
  A document of the \<^verbatim>\<open>vocabulary\<close> collection (\<^verbatim>\<open>VocabEntry\<close>). The per-language
  fields \<^verbatim>\<open>nextReviewMandarin\<close>, \<^verbatim>\<open>nextReviewCantonese\<close>, \<^verbatim>\<open>mastered_mandarin\<close>
  and \<^verbatim>\<open>mastered_cantonese\<close> may be absent from a document, which is \<open>None\<close>;
  every document has its creation \<^verbatim>\<open>timestamp\<close>.
  The two progress counters are the \<^verbatim>\<open>progressCount\<close> of the specification; the
  client code never reads them.
\<close>

record VocabEntry =
  id :: string
  simplified :: string
  timestamp :: Timestamp
  nextReviewMandarin :: "Timestamp option"
  nextReviewCantonese :: "Timestamp option"
  mastered_mandarin :: "bool option"
  mastered_cantonese :: "bool option"
  progressMandarin :: nat
  progressCantonese :: nat

text \<open>
  \<^verbatim>\<open>const nextReviewField = `nextReview${language.charAt(0).toUpperCase() + language.slice(1)}`;\<close>
  \<^verbatim>\<open>const masteredField = `mastered_${language}`;\<close>
  The field names are built from the language; the model selects the field.
\<close>

fun nextReviewField :: "Language \<Rightarrow> VocabEntry \<Rightarrow> Timestamp option" where
  "nextReviewField mandarin d = nextReviewMandarin d"
| "nextReviewField cantonese d = nextReviewCantonese d"

fun masteredField :: "Language \<Rightarrow> VocabEntry \<Rightarrow> bool option" where
  "masteredField mandarin d = mastered_mandarin d"
| "masteredField cantonese d = mastered_cantonese d"

fun progressCount :: "Language \<Rightarrow> VocabEntry \<Rightarrow> nat" where
  "progressCount mandarin d = progressMandarin d"
| "progressCount cantonese d = progressCantonese d"

section \<open>The item store's queries\<close>

text \<open>
  \<^verbatim>\<open>getDocs(query(vocabRef, where(...), orderBy(...), limit(n)))\<close>: the documents that
  satisfy the filter, in ascending order of the ordering field and then of the document
  id (\<open>fetchOrder\<close>), cut after the first \<open>n\<close>. A query with a range filter and no
  \<^verbatim>\<open>orderBy\<close> is ordered by the filtered field, as the store documents it. Document
  ids are compared as byte strings.
\<close>

definition fetchOrder ::
  "(VocabEntry \<Rightarrow> bool) \<Rightarrow> (VocabEntry \<Rightarrow> Timestamp) \<Rightarrow> VocabEntry list \<Rightarrow> VocabEntry list" where
  "fetchOrder wh key docs = sort_key (\<lambda>d. (key d, id d)) (filter wh docs)"

definition getDocs ::
  "(VocabEntry \<Rightarrow> bool) \<Rightarrow> (VocabEntry \<Rightarrow> Timestamp) \<Rightarrow> nat \<Rightarrow> VocabEntry list \<Rightarrow> VocabEntry list" where
  "getDocs wh key n docs = take n (fetchOrder wh key docs)"

text \<open>The value of the review field of a document that has one.\<close>

definition reviewTime :: "Language \<Rightarrow> VocabEntry \<Rightarrow> Timestamp" where
  "reviewTime language d = (case nextReviewField language d of Some t \<Rightarrow> t | None \<Rightarrow> 0)"

text \<open>\<^verbatim>\<open>where(nextReviewField, '<=', now)\<close> and \<^verbatim>\<open>where(nextReviewField, '>', now)\<close>:
  a document without the field matches neither.\<close>

definition whereLe :: "Language \<Rightarrow> Timestamp \<Rightarrow> VocabEntry \<Rightarrow> bool" where
  "whereLe language now d =
     (case nextReviewField language d of Some t \<Rightarrow> t \<le> now | None \<Rightarrow> False)"

definition whereGt :: "Language \<Rightarrow> Timestamp \<Rightarrow> VocabEntry \<Rightarrow> bool" where
  "whereGt language now d =
     (case nextReviewField language d of Some t \<Rightarrow> now < t | None \<Rightarrow> False)"

text \<open>
  \<^verbatim>\<open>query(vocabRef, where(nextReviewField, '<=', now), limit(50))\<close>,
  \<^verbatim>\<open>query(vocabRef, orderBy('timestamp'), limit(50))\<close> and
  \<^verbatim>\<open>query(vocabRef, where(nextReviewField, '>', now), orderBy(nextReviewField), limit(1))\<close>.
\<close>

definition dueQuery :: "Language \<Rightarrow> Timestamp \<Rightarrow> VocabEntry list \<Rightarrow> VocabEntry list" where
  "dueQuery language now = getDocs (whereLe language now) (reviewTime language) 50"

definition newQuery :: "VocabEntry list \<Rightarrow> VocabEntry list" where
  "newQuery = getDocs (\<lambda>d. True) timestamp 50"

definition nextQuery :: "Language \<Rightarrow> Timestamp \<Rightarrow> VocabEntry list \<Rightarrow> VocabEntry list" where
  "nextQuery language now = getDocs (whereGt language now) (reviewTime language) 1"

section \<open>Queue selection: \<^verbatim>\<open>fetchNextVocab\<close>\<close>

text \<open>\<^verbatim>\<open>data[masteredField] !== true\<close>\<close>

definition notMastered :: "Language \<Rightarrow> VocabEntry \<Rightarrow> bool" where
  "notMastered language d = (masteredField language d \<noteq> Some True)"

text \<open>\<^verbatim>\<open>!(nextReviewField in data) && data[masteredField] !== true\<close>\<close>

definition isNewWord :: "Language \<Rightarrow> VocabEntry \<Rightarrow> bool" where
  "isNewWord language d = (nextReviewField language d = None \<and> notMastered language d)"

text \<open>
  \<^verbatim>\<open>Math.ceil((nextReviewTime.toMillis() - now.toMillis()) / (1000 * 60))\<close>
\<close>

definition minutesUntilNext :: "Timestamp \<Rightarrow> Timestamp \<Rightarrow> int" where
  "minutesUntilNext nextReviewTime now =
     \<lceil>(of_int (nextReviewTime - now) :: rat) / (1000 * 60)\<rceil>"

text \<open>
  What one selection reports: a word to present (\<^verbatim>\<open>setCurrentVocab\<close>), or no word with
  the message \<^verbatim>\<open>Next review available in N minutes\<close> (\<open>NoneAvailable (Some N)\<close>) or
  \<^verbatim>\<open>No vocabulary available\<close> (\<open>NoneAvailable None\<close>).
\<close>

datatype selection = Due VocabEntry | NoneAvailable "int option"

text \<open>The body of the \<^verbatim>\<open>try\<close> block of \<^verbatim>\<open>fetchNextVocab\<close>, with its three tiers in order.\<close>

definition selectNext :: "Language \<Rightarrow> Timestamp \<Rightarrow> VocabEntry list \<Rightarrow> selection" where
  "selectNext language now docs =
     (case filter (notMastered language) (dueQuery language now docs) of
        doc # _ \<Rightarrow> Due doc
      | [] \<Rightarrow>
          (case filter (isNewWord language) (newQuery docs) of
             newWord # _ \<Rightarrow> Due newWord
           | [] \<Rightarrow>
               (case filter (notMastered language) (nextQuery language now docs) of
                  doc # _ \<Rightarrow> NoneAvailable (Some (minutesUntilNext (reviewTime language doc) now))
                | [] \<Rightarrow> NoneAvailable None)))"

text \<open>
  \<^verbatim>\<open>fetchNextVocab\<close> itself: without a signed-in user it only sets the message
  \<^verbatim>\<open>Please sign in to continue\<close>; a read that is rejected is caught and becomes the
  message \<^verbatim>\<open>Error fetching vocabulary\<close>. Neither is an exception of the caller.
\<close>

record User =
  uid :: string
  email :: "string option"
  displayName :: "string option"

datatype snapshot = Unavailable | Collection "VocabEntry list"

datatype fetched = PleaseSignIn | ErrorFetching | Selected selection

definition fetchNextVocab :: "User option \<Rightarrow> snapshot \<Rightarrow> Language \<Rightarrow> Timestamp \<Rightarrow> fetched" where
  "fetchNextVocab user db language now =
     (case user of
        None \<Rightarrow> PleaseSignIn
      | Some _ \<Rightarrow>
          (case db of
             Unavailable \<Rightarrow> ErrorFetching
           | Collection docs \<Rightarrow> Selected (selectNext language now docs)))"

section \<open>Interval policy\<close>

text \<open>
  The interval table as the client declares it (\<^verbatim>\<open>ReviewIntervals\<close>), with the values
  its comments give: 5, 15 and 30 minutes, \<^verbatim>\<open>[60, 240]\<close> and \<^verbatim>\<open>[1440, 4320, 10080]\<close>.
\<close>

record ReviewIntervals =
  IMMEDIATE :: nat
  SHORT :: nat
  MEDIUM :: nat
  INITIAL :: "nat list"
  SUBSEQUENT :: "nat list"

definition intervals :: ReviewIntervals where
  "intervals = \<lparr>IMMEDIATE = 5, SHORT = 15, MEDIUM = 30,
     INITIAL = [60, 240], SUBSEQUENT = [1440, 4320, 10080]\<rparr>"

text \<open>
  Modelled from the spec: the interval policy \<^verbatim>\<open>nextState\<close> runs in the evaluation
  backend (\<^verbatim>\<open>evaluate_answer\<close>), which is not among the sources. The outcome has the
  fields \<^verbatim>\<open>hadDifficulty\<close>, \<^verbatim>\<open>fluent\<close> and \<^verbatim>\<open>hasFillers\<close> and the mark of an only minimally
  adequate usage; the first matching rule of section 4.1 wins.
\<close>

record outcome =
  hadDifficulty :: bool
  fluent :: bool
  hasFillers :: bool
  minimalUsage :: bool

text \<open>Modelled from the spec: the success sequence of section 4.1, in minutes (1h, 4h,
  1d, 3d, 7d).\<close>

definition SUCCESS_SEQUENCE :: "nat list" where
  "SUCCESS_SEQUENCE = [60, 240, 1440, 4320, 10080]"

text \<open>Modelled from the spec: \<^verbatim>\<open>nextState(outcome, progressCount)\<close> gives the offset in
  minutes and the new progress count; only the lookup is clamped, never the count.\<close>

definition nextState :: "outcome \<Rightarrow> nat \<Rightarrow> nat \<times> nat" where
  "nextState oc progress =
     (if hadDifficulty oc then (5, 0)
      else if \<not> fluent oc \<or> hasFillers oc then (15, 0)
      else if minimalUsage oc then (30, 0)
      else ((if progress \<ge> length SUCCESS_SEQUENCE then last SUCCESS_SEQUENCE
             else SUCCESS_SEQUENCE ! progress),
            progress + 1))"

definition fullSuccess :: "outcome \<Rightarrow> bool" where
  "fullSuccess oc = (\<not> hadDifficulty oc \<and> fluent oc \<and> \<not> hasFillers oc \<and> \<not> minimalUsage oc)"

text \<open>A run of reviews of one track: the offsets handed out, and the progress count
  after the last one.\<close>

fun runReviews :: "outcome list \<Rightarrow> nat \<Rightarrow> nat list \<times> nat" where
  "runReviews [] progress = ([], progress)"
| "runReviews (oc # ocs) progress =
     (case nextState oc progress of
        (offset, progress') \<Rightarrow>
          (case runReviews ocs progress' of (offsets, final) \<Rightarrow> (offset # offsets, final)))"

section \<open>Scheduler service\<close>

datatype error = NotFound | InvalidArgument | RetryableIO

fun setNextReview :: "Language \<Rightarrow> Timestamp \<Rightarrow> VocabEntry \<Rightarrow> VocabEntry" where
  "setNextReview mandarin t d = d\<lparr>nextReviewMandarin := Some t\<rparr>"
| "setNextReview cantonese t d = d\<lparr>nextReviewCantonese := Some t\<rparr>"

fun setMasteredField :: "Language \<Rightarrow> bool \<Rightarrow> VocabEntry \<Rightarrow> VocabEntry" where
  "setMasteredField mandarin b d = d\<lparr>mastered_mandarin := Some b\<rparr>"
| "setMasteredField cantonese b d = d\<lparr>mastered_cantonese := Some b\<rparr>"

text \<open>
  Modelled from the spec: a partial update of one item's track (section 6, item store),
  failing with \<^verbatim>\<open>NotFound\<close> for an unknown item (section 7). The backend functions that
  perform it are not among the sources.
\<close>

definition updateTrack ::
  "string \<Rightarrow> (VocabEntry \<Rightarrow> VocabEntry) \<Rightarrow> VocabEntry list \<Rightarrow> error + VocabEntry list" where
  "updateTrack itemId f docs =
     (if filter (\<lambda>d. id d = itemId) docs = [] then Inl NotFound
      else Inr (map (\<lambda>d. if id d = itemId then f d else d) docs))"

text \<open>
  Modelled from the spec: \<^verbatim>\<open>setMastered(itemId, language, mastered)\<close> of the backend
  (\<^verbatim>\<open>mark_word_mastered\<close>, not among the sources) toggles the flag only.
\<close>

definition setMastered ::
  "string \<Rightarrow> Language \<Rightarrow> bool \<Rightarrow> VocabEntry list \<Rightarrow> error + VocabEntry list" where
  "setMastered itemId language b docs = updateTrack itemId (setMasteredField language b) docs"

text \<open>
  Modelled from the spec: \<^verbatim>\<open>overrideReviewTime(itemId, language, explicitTimestamp)\<close> of
  the backend (\<^verbatim>\<open>update_review_time\<close>, not among the sources) sets \<^verbatim>\<open>nextDueAt\<close> directly
  and returns the confirmed timestamp; a text that does not parse as a timestamp, here
  \<open>None\<close>, fails with \<^verbatim>\<open>InvalidArgument\<close>.
\<close>

definition overrideReviewTime ::
  "string \<Rightarrow> Language \<Rightarrow> Timestamp option \<Rightarrow> VocabEntry list
     \<Rightarrow> error + (VocabEntry list \<times> Timestamp)" where
  "overrideReviewTime itemId language explicitTimestamp docs =
     (case explicitTimestamp of
        None \<Rightarrow> Inl InvalidArgument
      | Some t \<Rightarrow>
          (case updateTrack itemId (setNextReview language t) docs of
             Inl e \<Rightarrow> Inl e
           | Inr docs' \<Rightarrow> Inr (docs', t)))"

text \<open>A read of one track's due time.\<close>

definition readNextDueAt :: "string \<Rightarrow> Language \<Rightarrow> VocabEntry list \<Rightarrow> error + Timestamp option" where
  "readNextDueAt itemId language docs =
     (case filter (\<lambda>d. id d = itemId) docs of
        [] \<Rightarrow> Inl NotFound
      | d # _ \<Rightarrow> Inr (nextReviewField language d))"

subsection \<open>The client's calls (\<^verbatim>\<open>scheduler.ts\<close>)\<close>

text \<open>
  \<^verbatim>\<open>markWordMastered(docId, language, mastered = true)\<close> posts the three values to the
  backend and throws when the response is not OK.
\<close>

definition markWordMastered ::
  "string \<Rightarrow> Language \<Rightarrow> bool \<Rightarrow> VocabEntry list \<Rightarrow> error + VocabEntry list" where
  "markWordMastered docId language b docs = setMastered docId language b docs"

text \<open>
  \<^verbatim>\<open>date.toISOString().split('.')[0]\<close>: the text sent as \<^verbatim>\<open>newReviewTime\<close> names the
  instant to the second, its milliseconds dropped.
\<close>

definition isoString :: "Timestamp \<Rightarrow> Timestamp" where
  "isoString t = (t div 1000) * 1000"

text \<open>\<^verbatim>\<open>updateReviewTime(docId, language, newReviewTime)\<close> posts the text and returns the
  backend's \<^verbatim>\<open>nextReview\<close>.\<close>

definition updateReviewTime ::
  "string \<Rightarrow> Language \<Rightarrow> Timestamp \<Rightarrow> VocabEntry list \<Rightarrow> error + (VocabEntry list \<times> Timestamp)" where
  "updateReviewTime docId language newReviewTime docs =
     overrideReviewTime docId language (Some newReviewTime) docs"

text \<open>
  \<^verbatim>\<open>handleUpdateTime(newTime)\<close>: nothing without a current word; otherwise the time is
  sent as \<open>isoString\<close> and the confirmed time becomes the displayed next review. The
  result is the store and the confirmed time, if any.
\<close>

definition handleUpdateTime ::
  "VocabEntry option \<Rightarrow> Language \<Rightarrow> Timestamp \<Rightarrow> VocabEntry list
     \<Rightarrow> VocabEntry list \<times> Timestamp option" where
  "handleUpdateTime currentVocab language newTime docs =
     (case currentVocab of
        None \<Rightarrow> (docs, None)
      | Some v \<Rightarrow>
          (case updateReviewTime (id v) language (isoString newTime) docs of
             Inl e \<Rightarrow> (docs, None)
           | Inr (docs', confirmed) \<Rightarrow> (docs', Some confirmed)))"

text \<open>
  The time zone of the host, as the two conversions of the language standard:
  \<open>LocalTime\<close> takes an instant to the milliseconds of the local wall clock and \<open>UTC\<close>
  takes wall-clock milliseconds back to an instant. Where the zone's offset changes,
  \<open>UTC\<close> does not undo \<open>LocalTime\<close>.
\<close>

record TimeZone =
  LocalTime :: "Timestamp \<Rightarrow> int"
  UTC :: "int \<Rightarrow> Timestamp"

text \<open>
  \<^verbatim>\<open>date.setMinutes(date.getMinutes() + m)\<close>: the minutes are read from and written to
  the local wall clock, the other local fields kept.
\<close>

definition addMinutes :: "TimeZone \<Rightarrow> int \<Rightarrow> Timestamp \<Rightarrow> Timestamp" where
  "addMinutes tz m t = UTC tz (LocalTime tz t + m * 60 * 1000)"

text \<open>
  The un-mark button of the mastered-words list, with \<open>now\<close> the value of \<^verbatim>\<open>new Date()\<close>:
  \<^verbatim>\<open>await markWordMastered(word.id, language, false);\<close>
  \<^verbatim>\<open>const date = new Date(); date.setMinutes(date.getMinutes() + 5);\<close>
  \<^verbatim>\<open>await updateReviewTime(word.id, language, date.toISOString().split('.')[0]);\<close>
\<close>

definition unmarkMastered ::
  "TimeZone \<Rightarrow> Timestamp \<Rightarrow> string \<Rightarrow> Language \<Rightarrow> VocabEntry list \<Rightarrow> error + VocabEntry list" where
  "unmarkMastered tz now wordId language docs =
     (case markWordMastered wordId language False docs of
        Inl e \<Rightarrow> Inl e
      | Inr docs' \<Rightarrow>
          (case updateReviewTime wordId language (isoString (addMinutes tz 5 now)) docs' of
             Inl e \<Rightarrow> Inl e
           | Inr (docs'', _) \<Rightarrow> Inr docs''))"

section \<open>External calls: the evaluation judge and the question generator\<close>

text \<open>
  The second argument of \<^verbatim>\<open>fetch\<close>. The calls of this client give a method, headers and
  a body; \<open>signal\<close> is the field through which a caller would attach a deadline
  (an abort signal), \<open>None\<close> when the object has no such field.
\<close>

datatype json = JString string | JBool bool

datatype AbortSignal = AbortTimeout nat

record RequestInit =
  httpMethod :: string
  headers :: "(string \<times> string) list"
  body :: "(string \<times> json) list"
  signal :: "AbortSignal option"

fun languageName :: "Language \<Rightarrow> string" where
  "languageName mandarin = ''mandarin''"
| "languageName cantonese = ''cantonese''"

definition EVALUATE_URL :: string where
  "EVALUATE_URL = ''https://us-central1-wz-data-catalog-demo.cloudfunctions.net/evaluate_answer''"

definition FUNCTION_URL :: string where
  "FUNCTION_URL = ''https://us-central1-wz-data-catalog-demo.cloudfunctions.net/generate_vocab_question''"

text \<open>The request of \<^verbatim>\<open>evaluateAnswer\<close>; \<^verbatim>\<open>JSON.stringify\<close> leaves out an undefined
  \<^verbatim>\<open>generatedQuestion\<close>.\<close>

definition evaluateAnswerInit ::
  "string \<Rightarrow> Language \<Rightarrow> string \<Rightarrow> bool \<Rightarrow> string option \<Rightarrow> RequestInit" where
  "evaluateAnswerInit docId language answer difficulty generatedQuestion =
     \<lparr>httpMethod = ''POST'',
      headers = [(''Content-Type'', ''application/json'')],
      body = [(''docId'', JString docId), (''language'', JString (languageName language)),
              (''answer'', JString answer), (''hadDifficulty'', JBool difficulty)]
             @ (case generatedQuestion of None \<Rightarrow> [] | Some q \<Rightarrow> [(''generatedQuestion'', JString q)]),
      signal = None\<rparr>"

text \<open>The request of \<^verbatim>\<open>generateQuestion\<close>, with \<^verbatim>\<open>cantoneseEntry || ''\<close>.\<close>

definition generateQuestionInit :: "string \<Rightarrow> Language \<Rightarrow> string option \<Rightarrow> RequestInit" where
  "generateQuestionInit word language cantoneseEntry =
     \<lparr>httpMethod = ''POST'',
      headers = [(''Content-Type'', ''application/json'')],
      body = [(''word'', JString word), (''language'', JString (languageName language)),
              (''cantoneseEntry'', JString (case cantoneseEntry of None \<Rightarrow> [] | Some c \<Rightarrow> c))],
      signal = None\<rparr>"

text \<open>
  What \<^verbatim>\<open>await fetch(...)\<close> brings back: the promise is rejected, or the response is
  not OK (with the text that goes into the error message), or it is OK with its JSON
  body. The network and what answers behind it are a parameter \<open>net\<close> of the calls:
  from the address, the request and the item store it gives the reply and the store as
  the call leaves it.
\<close>

datatype 'a reply = Rejected | NotOk string | Ok 'a

datatype clientError = NetworkError | Failed string

definition evaluateAnswer ::
  "(string \<Rightarrow> RequestInit \<Rightarrow> VocabEntry list \<Rightarrow> 'a reply \<times> VocabEntry list)
     \<Rightarrow> string \<Rightarrow> Language \<Rightarrow> string \<Rightarrow> bool \<Rightarrow> string option \<Rightarrow> VocabEntry list
     \<Rightarrow> (clientError + 'a) \<times> VocabEntry list" where
  "evaluateAnswer net docId language answer difficulty generatedQuestion docs =
     (case net EVALUATE_URL
             (evaluateAnswerInit docId language answer difficulty generatedQuestion) docs of
        (Rejected, docs') \<Rightarrow> (Inl NetworkError, docs')
      | (NotOk e, docs') \<Rightarrow> (Inl (Failed (''Failed to evaluate answer: '' @ e)), docs')
      | (Ok v, docs') \<Rightarrow> (Inr v, docs'))"

definition generateQuestion ::
  "(string \<Rightarrow> RequestInit \<Rightarrow> VocabEntry list \<Rightarrow> 'a reply \<times> VocabEntry list)
     \<Rightarrow> string \<Rightarrow> Language \<Rightarrow> string option \<Rightarrow> VocabEntry list
     \<Rightarrow> (clientError + 'a) \<times> VocabEntry list" where
  "generateQuestion net word language cantoneseEntry docs =
     (case net FUNCTION_URL (generateQuestionInit word language cantoneseEntry) docs of
        (Rejected, docs') \<Rightarrow> (Inl NetworkError, docs')
      | (NotOk e, docs') \<Rightarrow> (Inl (Failed (''Failed to generate question: '' @ e)), docs')
      | (Ok v, docs') \<Rightarrow> (Inr v, docs'))"

text \<open>The part of the component's state that \<^verbatim>\<open>handleSubmit\<close> reads and writes.\<close>

record AnswerEvaluation =
  fluent :: bool
  meaningful_usage :: bool
  has_fillers :: bool
  romanization :: string
  improved_answer :: "string option"
  feedback :: string

record AppState =
  currentVocab :: "VocabEntry option"
  currentQuestion :: "string option"
  userInput :: string
  markedDifficult :: bool
  evaluation :: "AnswerEvaluation option"
  nextReview :: "Timestamp option"
  message :: string

text \<open>
  \<^verbatim>\<open>handleSubmit\<close>: nothing without a current word or a user; a missing question or a
  failed call is caught and becomes the message \<^verbatim>\<open>Error submitting answer\<close>; a judged
  answer sets the evaluation, the next review and the feedback message. The result is
  the store as the call left it and the component's state.
\<close>

definition handleSubmit ::
  "(string \<Rightarrow> RequestInit \<Rightarrow> VocabEntry list \<Rightarrow> (AnswerEvaluation \<times> Timestamp) reply \<times> VocabEntry list)
     \<Rightarrow> User option \<Rightarrow> Language \<Rightarrow> VocabEntry list \<Rightarrow> AppState \<Rightarrow> VocabEntry list \<times> AppState" where
  "handleSubmit net user language docs st =
     (case (currentVocab st, user) of
        (Some v, Some _) \<Rightarrow>
          (case currentQuestion st of
             None \<Rightarrow> (docs, st\<lparr>message := ''Error submitting answer''\<rparr>)
           | Some q \<Rightarrow>
               (case evaluateAnswer net (id v) language (userInput st) (markedDifficult st)
                       (Some q) docs of
                  (Inl e, docs') \<Rightarrow> (docs', st\<lparr>message := ''Error submitting answer''\<rparr>)
                | (Inr (ev, t), docs') \<Rightarrow>
                    (docs',
                     st\<lparr>evaluation := Some ev, nextReview := Some t, message := feedback ev\<rparr>)))
      | _ \<Rightarrow> (docs, st))"

subsection \<open>What answers the calls\<close>

fun setProgress :: "Language \<Rightarrow> nat \<Rightarrow> VocabEntry \<Rightarrow> VocabEntry" where
  "setProgress mandarin n d = d\<lparr>progressMandarin := n\<rparr>"
| "setProgress cantonese n d = d\<lparr>progressCantonese := n\<rparr>"

text \<open>
  Modelled from the spec: \<^verbatim>\<open>submitEvaluation(itemId, language, outcome, now)\<close> of the
  backend (not among the sources) reads the track's progress count, asks the interval
  policy, and writes the due time \<open>now\<close> plus the offset and the new count; it fails with
  \<^verbatim>\<open>NotFound\<close> for an unknown item (section 4.3).
\<close>

definition submitEvaluation ::
  "string \<Rightarrow> Language \<Rightarrow> outcome \<Rightarrow> Timestamp \<Rightarrow> VocabEntry list
     \<Rightarrow> error + (VocabEntry list \<times> Timestamp)" where
  "submitEvaluation itemId language oc now docs =
     (case filter (\<lambda>d. id d = itemId) docs of
        [] \<Rightarrow> Inl NotFound
      | d # _ \<Rightarrow>
          (case nextState oc (progressCount language d) of
             (offset, progress') \<Rightarrow>
               Inr (map (\<lambda>x. if id x = itemId
                              then setProgress language progress'
                                     (setNextReview language (now + int offset * 60 * 1000) x)
                              else x) docs,
                    now + int offset * 60 * 1000)))"

text \<open>
  Modelled from the spec: the outcome handed to the interval policy, from the learner's
  own difficulty flag and the judge's evaluation (sections 4.1 and 6); an evaluation
  without meaningful usage is the only minimally adequate one.
\<close>

definition outcomeOf :: "bool \<Rightarrow> AnswerEvaluation \<Rightarrow> outcome" where
  "outcomeOf difficulty ev =
     \<lparr>hadDifficulty = difficulty, fluent = AnswerEvaluation.fluent ev,
      hasFillers = has_fillers ev, minimalUsage = (\<not> meaningful_usage ev)\<rparr>"

fun languageOf :: "string \<Rightarrow> Language option" where
  "languageOf name =
     (if name = ''mandarin'' then Some mandarin
      else if name = ''cantonese'' then Some cantonese else None)"

text \<open>The values of an evaluation request, read back from its body.\<close>

definition evaluationRequest ::
  "RequestInit \<Rightarrow> (string \<times> Language \<times> string \<times> bool \<times> string) option" where
  "evaluationRequest init =
     (case map_of (body init) ''docId'' of
        Some (JString docId) \<Rightarrow>
          (case map_of (body init) ''language'' of
             Some (JString name) \<Rightarrow>
               (case languageOf name of
                  Some language \<Rightarrow>
                    (case map_of (body init) ''answer'' of
                       Some (JString answer) \<Rightarrow>
                         (case map_of (body init) ''hadDifficulty'' of
                            Some (JBool difficulty) \<Rightarrow>
                              (case map_of (body init) ''generatedQuestion'' of
                                 Some (JString question) \<Rightarrow>
                                   Some (docId, language, answer, difficulty, question)
                               | _ \<Rightarrow> None)
                          | _ \<Rightarrow> None)
                     | _ \<Rightarrow> None)
                | None \<Rightarrow> None)
           | _ \<Rightarrow> None)
      | _ \<Rightarrow> None)"

text \<open>
  Modelled from the spec: the evaluation endpoint of the backend (\<^verbatim>\<open>evaluate_answer\<close>,
  not among the sources). The judge of section 6 is a parameter; a judge that fails or
  runs into its time limit is \<open>Inl\<close>. No track is written until a judged outcome is in
  hand (section 5); a request that cannot be read is an \<^verbatim>\<open>InvalidArgument\<close> (section 7).
\<close>

definition evaluate_answer ::
  "(string \<Rightarrow> string \<Rightarrow> Language \<Rightarrow> error + AnswerEvaluation) \<Rightarrow> Timestamp
     \<Rightarrow> string \<Rightarrow> RequestInit \<Rightarrow> VocabEntry list
     \<Rightarrow> (AnswerEvaluation \<times> Timestamp) reply \<times> VocabEntry list" where
  "evaluate_answer judge now url init docs =
     (if url \<noteq> EVALUATE_URL then (Rejected, docs)
      else
        (case evaluationRequest init of
           None \<Rightarrow> (NotOk ''InvalidArgument'', docs)
         | Some (docId, language, answer, difficulty, question) \<Rightarrow>
             (case judge question answer language of
                Inl e \<Rightarrow> (NotOk ''RetryableIO'', docs)
              | Inr ev \<Rightarrow>
                  (case submitEvaluation docId language (outcomeOf difficulty ev) now docs of
                     Inl e \<Rightarrow> (NotOk ''NotFound'', docs)
                   | Inr (docs', due) \<Rightarrow> (Ok (ev, due), docs')))))"

text \<open>
  Modelled from the spec: the question endpoint of the backend
  (\<^verbatim>\<open>generate_vocab_question\<close>, not among the sources). The generator of section 6 is an
  opaque parameter that sees the request only; it takes no part in scheduling and the
  store stays as it is.
\<close>

definition generate_vocab_question ::
  "(RequestInit \<Rightarrow> error + 'q) \<Rightarrow> string \<Rightarrow> RequestInit \<Rightarrow> VocabEntry list
     \<Rightarrow> 'q reply \<times> VocabEntry list" where
  "generate_vocab_question generator url init docs =
     (if url \<noteq> FUNCTION_URL then (Rejected, docs)
      else
        (case generator init of
           Inl e \<Rightarrow> (NotOk ''RetryableIO'', docs)
         | Inr question \<Rightarrow> (Ok question, docs)))"

section \<open>Sign-in (\<^verbatim>\<open>auth.ts\<close>)\<close>

text \<open>\<^verbatim>\<open>String.prototype.toLowerCase\<close> on the letters A to Z; no other character
  becomes a letter of the address compared with.\<close>

definition lowerChar :: "char \<Rightarrow> char" where
  "lowerChar c = (if CHR ''A'' \<le> c \<and> c \<le> CHR ''Z'' then char_of (of_char c + (32::nat)) else c)"

definition toLowerCase :: "string \<Rightarrow> string" where
  "toLowerCase = map lowerChar"

definition allowedEmail :: string where
  "allowedEmail = ''wzhybrid@gmail.com''"

text \<open>
  \<^verbatim>\<open>signInWithPopup\<close> either yields a user, who is then the session's current user, or
  is rejected with an error code. The session (\<^verbatim>\<open>auth.currentUser\<close>) is passed in and
  returned.
\<close>

datatype popup = PopupUser User | PopupFailed string

datatype authError = Message string | FirebaseError string

text \<open>
  The first \<^verbatim>\<open>signIn\<close> of the file:
  \<^verbatim>\<open>const email = result.user.email?.toLowerCase();\<close>
  \<^verbatim>\<open>if (email !== 'wzhybrid@gmail.com') { await auth.signOut(); throw new Error(...); }\<close>
\<close>

definition signIn :: "popup \<Rightarrow> User option \<Rightarrow> (authError + User) \<times> User option" where
  "signIn p session =
     (case p of
        PopupFailed code \<Rightarrow> (Inl (FirebaseError code), session)
      | PopupUser u \<Rightarrow>
          (if map_option toLowerCase (email u) \<noteq> Some allowedEmail
           then (Inl (Message ''Please sign in with wzhybrid@gmail.com''), None)
           else (Inr u, Some u)))"

text \<open>
  The second \<^verbatim>\<open>signIn\<close> of the file (the provider asks to select an account): it signs
  out first, compares the address as it is, and words three of the popup's errors.
\<close>

definition signIn_select_account :: "popup \<Rightarrow> User option \<Rightarrow> (authError + User) \<times> User option" where
  "signIn_select_account p session =
     (case p of
        PopupFailed code \<Rightarrow>
          (Inl (if code = ''auth/popup-blocked'' then Message ''Please allow popups for this site''
                else if code = ''auth/cancelled-popup-request'' then Message ''Sign in was cancelled''
                else if code = ''auth/popup-closed-by-user'' then Message ''Sign in window was closed''
                else FirebaseError code),
           None)
      | PopupUser u \<Rightarrow>
          (if email u \<noteq> Some allowedEmail
           then (Inl (Message ''Please sign in with wzhybrid@gmail.com''), None)
           else (Inr u, Some u)))"

subsection \<open>The component's listener\<close>

text \<open>
  \<^verbatim>\<open>onAuthChange((user) => { setUser(user); if (!user) { signIn()... } ... })\<close> and the
  effect on \<^verbatim>\<open>[language, user?.uid]\<close>, \<^verbatim>\<open>if (user && language) { ...; fetchNextVocab(); }\<close>:
  the component stores whatever user the session reports; without one it attempts a
  sign-in, with one it fetches the next word.
\<close>

datatype appStep = AttemptSignIn | Fetch fetched

definition onAuthChange ::
  "User option \<Rightarrow> snapshot \<Rightarrow> Language \<Rightarrow> Timestamp \<Rightarrow> User option \<times> appStep" where
  "onAuthChange reported db language now =
     (reported,
      (case reported of
         None \<Rightarrow> AttemptSignIn
       | Some u \<Rightarrow> Fetch (fetchNextVocab reported db language now)))"

section \<open>Sample documents\<close>

definition entry :: "string \<Rightarrow> Timestamp \<Rightarrow> Timestamp option \<Rightarrow> bool option \<Rightarrow> VocabEntry" where
  "entry i created due m =
     \<lparr>id = i, simplified = i, timestamp = created,
      nextReviewMandarin = due, nextReviewCantonese = None,
      mastered_mandarin = m, mastered_cantonese = None,
      progressMandarin = 0, progressCantonese = 0\<rparr>"

text \<open>Fifty mastered words, due at 0, 1, ..., 49, and two words that are not mastered,
  due at 100 and 200.\<close>

definition crowded :: "VocabEntry list" where
  "crowded =
     map (\<lambda>n. entry (replicate (Suc n) CHR ''m'') 0 (Some (int n)) (Some True)) [0..<50]
     @ [entry ''x'' 0 (Some 100) None, entry ''y'' 0 (Some 200) None]"

text \<open>Two due words, the later one stored first.\<close>

definition twoDue :: "VocabEntry list" where
  "twoDue = [entry ''b'' 0 (Some 700) None, entry ''a'' 1 (Some 300) (Some False)]"

text \<open>A mastered word due in one minute and a word in practice due in two.\<close>

definition shadowed :: "VocabEntry list" where
  "shadowed = [entry ''a'' 0 (Some 60000) (Some True), entry ''b'' 1 (Some 120000) (Some False)]"

text \<open>A mastered word that is overdue, a mastered word never scheduled, and a new word.\<close>

definition mixed :: "VocabEntry list" where
  "mixed = [entry ''a'' 0 (Some 10) (Some True), entry ''b'' 1 None (Some True), entry ''c'' 2 None None]"

text \<open>A corpus that is entirely mastered.\<close>

definition allMastered :: "VocabEntry list" where
  "allMastered = [entry ''a'' 0 (Some 10) (Some True), entry ''b'' 1 None (Some True),
     entry ''c'' 2 (Some 900000) (Some True)]"

text \<open>A mastered word whose stored due time, 1000, is long past at 5000000.\<close>

definition stale :: "VocabEntry list" where
  "stale = [entry ''w1'' 0 (Some 1000) (Some True)]"

definition someUser :: User where
  "someUser = \<lparr>uid = ''u1'', email = Some ''wzhybrid@gmail.com'', displayName = None\<rparr>"

definition capitalUser :: User where
  "capitalUser = \<lparr>uid = ''u2'', email = Some ''WZHybrid@Gmail.com'', displayName = None\<rparr>"

definition otherUser :: User where
  "otherUser = \<lparr>uid = ''u3'', email = Some ''someone@example.com'', displayName = None\<rparr>"

definition fullSuccessOutcome :: outcome where
  "fullSuccessOutcome = \<lparr>hadDifficulty = False, fluent = True, hasFillers = False, minimalUsage = False\<rparr>"

text \<open>A store with a mastered word due first, the mastered word \<open>w1\<close>, a word in practice
  due at the same time as \<open>w1\<close> with a larger id, and a word in practice due later.\<close>

definition shelf :: "VocabEntry list" where
  "shelf = [entry ''w0'' 0 (Some 500) (Some True), entry ''w1'' 1 (Some 1000) (Some True),
     entry ''w2'' 2 (Some 1000) None, entry ''w3'' 3 (Some 2000) (Some False)]"



definition autumnZone :: TimeZone where
  "autumnZone =
     \<lparr>LocalTime = (\<lambda>t. if t < 0 then t + 3600000 else t),
      UTC = (\<lambda>l. if l < 3600000 then l - 3600000 else l)\<rparr>"

text \<open>A judge that runs into its time limit, a judge that finds a full success, and a
  component waiting for an answer to a generated question.\<close>

definition judgeTimesOut :: "string \<Rightarrow> string \<Rightarrow> Language \<Rightarrow> error + AnswerEvaluation" where
  "judgeTimesOut question answer language = Inl RetryableIO"

definition judgeFluent :: "string \<Rightarrow> string \<Rightarrow> Language \<Rightarrow> error + AnswerEvaluation" where
  "judgeFluent question answer language =
     Inr \<lparr>fluent = True, meaningful_usage = True, has_fillers = False, romanization = [],
          improved_answer = None, feedback = ''good''\<rparr>"

definition answering :: AppState where
  "answering =
     \<lparr>currentVocab = Some (entry ''w1'' 0 (Some 1000) None), currentQuestion = Some ''question'',
      userInput = ''answer'', markedDifficult = False, evaluation = None, nextReview = None,
      message = []\<rparr>"

section \<open>Facts about the queries\<close>




lemma set_fetchOrder: "set (fetchOrder wh key docs) = {d \<in> set docs. wh d}"
  by (simp add: fetchOrder_def)

lemma getDocs_first:
  assumes "filter P (getDocs wh key n docs) = d # r"
  shows "d \<in> set docs \<and> wh d \<and> P d \<and> d \<in> set (getDocs wh key n docs)"
proof -
  have "d \<in> set (filter P (getDocs wh key n docs))" using assms by simp
  then have m: "d \<in> set (getDocs wh key n docs)" and p: "P d" by simp_all
  from m have "d \<in> set (fetchOrder wh key docs)"
    unfolding getDocs_def by (rule in_set_takeD)
  then show ?thesis using m p by (simp add: set_fetchOrder)
qed


lemma selectNext_Due_cases:
  assumes "selectNext language now docs = Due d"
  shows "(\<exists>r. filter (notMastered language) (dueQuery language now docs) = d # r) \<or>
         (filter (notMastered language) (dueQuery language now docs) = [] \<and>
          (\<exists>r. filter (isNewWord language) (newQuery docs) = d # r))"
  using assms by (auto simp: selectNext_def split: list.splits)

lemma in_take_position:
  assumes "d \<in> set (take n xs)"
  shows "\<exists>i<n. i < length xs \<and> xs ! i = d"
proof -
  from assms obtain i where "i < length (take n xs)" "take n xs ! i = d"
    by (auto simp: in_set_conv_nth)
  then have "i < n \<and> i < length xs \<and> xs ! i = d" by simp
  then show ?thesis by blast
qed

lemma selected_in_window:
  assumes sel: "selectNext language now docs = Due d"
  shows "(\<exists>i<50. i < length (fetchOrder (whereLe language now) (reviewTime language) docs)
            \<and> fetchOrder (whereLe language now) (reviewTime language) docs ! i = d
            \<and> whereLe language now d \<and> notMastered language d)
        \<or> (\<exists>i<50. i < length (fetchOrder (\<lambda>d. True) timestamp docs)
            \<and> fetchOrder (\<lambda>d. True) timestamp docs ! i = d \<and> isNewWord language d)"
proof -
  from selectNext_Due_cases [OF sel]
  consider r where "filter (notMastered language) (dueQuery language now docs) = d # r"
    | r where "filter (isNewWord language) (newQuery docs) = d # r"
    by blast
  then show ?thesis
  proof cases
    case 1
    from getDocs_first [OF 1 [unfolded dueQuery_def]]
    have p: "whereLe language now d" "notMastered language d"
      and m: "d \<in> set (take 50 (fetchOrder (whereLe language now) (reviewTime language) docs))"
      by (simp_all add: getDocs_def)
    from in_take_position [OF m] obtain i where
      "i < 50" "i < length (fetchOrder (whereLe language now) (reviewTime language) docs)"
      "fetchOrder (whereLe language now) (reviewTime language) docs ! i = d"
      by blast
    with p show ?thesis by (intro disjI1 exI [of _ i]) simp
  next
    case 2
    from getDocs_first [OF 2 [unfolded newQuery_def]]
    have p: "isNewWord language d"
      and m: "d \<in> set (take 50 (fetchOrder (\<lambda>d. True) timestamp docs))"
      by (simp_all add: getDocs_def)
    from in_take_position [OF m] obtain i where
      "i < 50" "i < length (fetchOrder (\<lambda>d. True) timestamp docs)"
      "fetchOrder (\<lambda>d. True) timestamp docs ! i = d"
      by blast
    with p show ?thesis by (intro disjI2 exI [of _ i]) simp
  qed
qed

lemma nothing_selected:
  assumes "filter (notMastered language) (dueQuery language now docs) = []"
    and "filter (isNewWord language) (newQuery docs) = []"
  shows "selectNext language now docs \<noteq> Due e"
  using assms by (simp add: selectNext_def split: list.splits)

lemma getDocs_none:
  assumes "filter P docs = []"
  shows "filter P (getDocs wh key n docs) = []"
proof -
  have "set (getDocs wh key n docs) \<subseteq> set docs"
    unfolding getDocs_def using set_take_subset [of n "fetchOrder wh key docs"]
    by (auto simp: set_fetchOrder)
  with assms show ?thesis by (auto simp: filter_empty_conv)
qed

lemma selectNext_single:
  "selectNext language now [d] = Due d
     \<longleftrightarrow> masteredField language d \<noteq> Some True
         \<and> (whereLe language now d \<or> nextReviewField language d = None)"
  by (auto simp: selectNext_def dueQuery_def newQuery_def nextQuery_def getDocs_def
      fetchOrder_def notMastered_def isNewWord_def whereLe_def split: option.splits)

section \<open>Queue selection\<close>

text \<open>
  Claim C4. Whatever the corpus, the language and the time, a selected item is a document
  of the corpus whose mastered flag for that language is not \<^verbatim>\<open>true\<close>: both tiers that
  can select filter on the flag itself, so a mastered track is left out whether its due
  time has passed or is absent. Nothing else excludes a track: a document alone in the
  corpus is selected exactly when its flag is not \<^verbatim>\<open>true\<close> and its due time has passed or
  is absent.
\<close>

theorem mastered_never_selected:
  "(selectNext language now docs = Due d \<longrightarrow>
      d \<in> set docs \<and> masteredField language d \<noteq> Some True)
   \<and> (selectNext language now [e] = Due e
        \<longleftrightarrow> masteredField language e \<noteq> Some True
            \<and> (whereLe language now e \<or> nextReviewField language e = None))"
proof (intro conjI impI)
  assume sel: "selectNext language now docs = Due d"
  from selectNext_Due_cases [OF sel]
  consider r where "filter (notMastered language) (dueQuery language now docs) = d # r"
    | r where "filter (isNewWord language) (newQuery docs) = d # r"
    by blast
  then have "d \<in> set docs \<and> masteredField language d \<noteq> Some True"
  proof cases
    case 1
    from getDocs_first [OF 1 [unfolded dueQuery_def]] show ?thesis
      by (simp add: notMastered_def)
  next
    case 2
    from getDocs_first [OF 2 [unfolded newQuery_def]] show ?thesis
      by (simp add: isNewWord_def notMastered_def)
  qed
  then show "d \<in> set docs" and "masteredField language d \<noteq> Some True"
    by simp_all
next
  show "selectNext language now [e] = Due e
        \<longleftrightarrow> masteredField language e \<noteq> Some True
            \<and> (whereLe language now e \<or> nextReviewField language e = None)"
    by (rule selectNext_single)
qed

text \<open>In \<open>mixed\<close> the overdue word and the oldest unscheduled word are mastered; the
  new word \<open>c\<close> is selected.\<close>

theorem mastered_never_selected_witness:
  "selectNext mandarin 1000 mixed = Due (entry ''c'' 2 None None)
   \<and> entry ''c'' 2 None None \<in> set mixed
   \<and> masteredField mandarin (entry ''c'' 2 None None) \<noteq> Some True"
proof -
  have h: "selectNext mandarin 1000 mixed = Due (entry ''c'' 2 None None)"
    by code_simp
  show ?thesis
    using h mastered_never_selected [of mandarin 1000 mixed "entry ''c'' 2 None None",
      THEN conjunct1, THEN mp, OF h]
    by simp
qed

text \<open>
  Claim C2, at the failing input \<open>crowded\<close>. The words \<open>x\<close> and \<open>y\<close> are due at 100 and
  200 and not mastered, so the claim requires \<open>x\<close>; yet fifty mastered words are due
  before them, the due query is cut after fifty documents before the mastered ones are
  filtered out, and the selection reports that no vocabulary is available.
\<close>

theorem crowded_due_words_unserved:
  "entry ''x'' 0 (Some 100) None \<in> set crowded \<and> entry ''y'' 0 (Some 200) None \<in> set crowded
   \<and> notMastered mandarin (entry ''x'' 0 (Some 100) None)
   \<and> notMastered mandarin (entry ''y'' 0 (Some 200) None)
   \<and> whereLe mandarin 1000 (entry ''x'' 0 (Some 100) None)
   \<and> whereLe mandarin 1000 (entry ''y'' 0 (Some 200) None)
   \<and> selectNext mandarin 1000 crowded = NoneAvailable None"
  by code_simp

text \<open>
  Claim C10. The due tier looks at the first fifty documents of the due fetch order and
  the new tier at the first fifty documents in order of creation; a selected item stands
  at one of the first fifty positions of the order of the tier that selected it and
  passes that tier's filter; and when every fetched document of both tiers is filtered
  out, no item is selected, whatever stands beyond those positions.
\<close>

theorem fetch_window:
  "length (dueQuery language now docs) \<le> 50 \<and> length (newQuery docs) \<le> 50
   \<and> dueQuery language now docs
        = take 50 (fetchOrder (whereLe language now) (reviewTime language) docs)
   \<and> newQuery docs = take 50 (fetchOrder (\<lambda>d. True) timestamp docs)
   \<and> (selectNext language now docs = Due d \<longrightarrow>
        (\<exists>i<50. i < length (fetchOrder (whereLe language now) (reviewTime language) docs)
            \<and> fetchOrder (whereLe language now) (reviewTime language) docs ! i = d
            \<and> whereLe language now d \<and> notMastered language d)
        \<or> (\<exists>i<50. i < length (fetchOrder (\<lambda>d. True) timestamp docs)
            \<and> fetchOrder (\<lambda>d. True) timestamp docs ! i = d \<and> isNewWord language d))
   \<and> (filter (notMastered language) (dueQuery language now docs) = []
        \<and> filter (isNewWord language) (newQuery docs) = []
        \<longrightarrow> (\<forall>e. selectNext language now docs \<noteq> Due e))"
proof (intro conjI impI allI)
  show "length (dueQuery language now docs) \<le> 50"
    by (simp add: dueQuery_def getDocs_def)
  show "length (newQuery docs) \<le> 50"
    by (simp add: newQuery_def getDocs_def)
  show "dueQuery language now docs
        = take 50 (fetchOrder (whereLe language now) (reviewTime language) docs)"
    by (simp add: dueQuery_def getDocs_def)
  show "newQuery docs = take 50 (fetchOrder (\<lambda>d. True) timestamp docs)"
    by (simp add: newQuery_def getDocs_def)
next
  assume "selectNext language now docs = Due d"
  then show "(\<exists>i<50. i < length (fetchOrder (whereLe language now) (reviewTime language) docs)
            \<and> fetchOrder (whereLe language now) (reviewTime language) docs ! i = d
            \<and> whereLe language now d \<and> notMastered language d)
        \<or> (\<exists>i<50. i < length (fetchOrder (\<lambda>d. True) timestamp docs)
            \<and> fetchOrder (\<lambda>d. True) timestamp docs ! i = d \<and> isNewWord language d)"
    by (rule selected_in_window)
next
  fix e
  assume "filter (notMastered language) (dueQuery language now docs) = []
        \<and> filter (isNewWord language) (newQuery docs) = []"
  then show "selectNext language now docs \<noteq> Due e"
    using nothing_selected by blast
qed

text \<open>In \<open>twoDue\<close> the selected word stands within the window; in \<open>crowded\<close> the fifty
  fetched documents are all mastered and nothing is selected.\<close>

theorem fetch_window_witness:
  "selectNext mandarin 1000 twoDue = Due (entry ''a'' 1 (Some 300) (Some False))
   \<and> (\<exists>i<50. i < length (fetchOrder (whereLe mandarin 1000) (reviewTime mandarin) twoDue)
        \<and> fetchOrder (whereLe mandarin 1000) (reviewTime mandarin) twoDue ! i
            = entry ''a'' 1 (Some 300) (Some False))
   \<and> filter (notMastered mandarin) (dueQuery mandarin 1000 crowded) = []
   \<and> filter (isNewWord mandarin) (newQuery crowded) = []
   \<and> (\<forall>e. selectNext mandarin 1000 crowded \<noteq> Due e)"
proof -
  let ?a = "entry ''a'' 1 (Some 300) (Some False)"
  have a: "selectNext mandarin 1000 twoDue = Due ?a"
    by code_simp
  have n: "\<not> isNewWord mandarin ?a"
    by code_simp
  have c: "filter (notMastered mandarin) (dueQuery mandarin 1000 crowded) = []
     \<and> filter (isNewWord mandarin) (newQuery crowded) = []"
    by code_simp
  note two = fetch_window [of mandarin 1000 twoDue ?a]
  note many = fetch_window [of mandarin 1000 crowded ?a]
  from two a have
    "(\<exists>i<50. i < length (fetchOrder (whereLe mandarin 1000) (reviewTime mandarin) twoDue)
        \<and> fetchOrder (whereLe mandarin 1000) (reviewTime mandarin) twoDue ! i = ?a
        \<and> whereLe mandarin 1000 ?a \<and> notMastered mandarin ?a)
     \<or> (\<exists>i<50. i < length (fetchOrder (\<lambda>d. True) timestamp twoDue)
        \<and> fetchOrder (\<lambda>d. True) timestamp twoDue ! i = ?a \<and> isNewWord mandarin ?a)"
    by (elim conjE) (erule mp)
  with n have pos:
    "\<exists>i<50. i < length (fetchOrder (whereLe mandarin 1000) (reviewTime mandarin) twoDue)
        \<and> fetchOrder (whereLe mandarin 1000) (reviewTime mandarin) twoDue ! i = ?a"
    by auto
  from many c have none: "\<forall>e. selectNext mandarin 1000 crowded \<noteq> Due e"
    by (elim conjE) (erule mp, rule conjI)
  show ?thesis using a pos c none by (intro conjI) simp_all
qed

text \<open>
  Claim C3, at the failing input \<open>shadowed\<close>. Nothing is due or new; the word \<open>b\<close> is
  in practice and due in two minutes; the query for the next review returns only the
  mastered word \<open>a\<close>, due sooner, which the filter then drops: the selection reports no
  vocabulary instead of two minutes.
\<close>

theorem shadowed_next_review:
  "filter (notMastered mandarin) (dueQuery mandarin 0 shadowed) = []
   \<and> filter (isNewWord mandarin) (newQuery shadowed) = []
   \<and> entry ''b'' 1 (Some 120000) (Some False) \<in> set shadowed
   \<and> notMastered mandarin (entry ''b'' 1 (Some 120000) (Some False))
   \<and> whereGt mandarin 0 (entry ''b'' 1 (Some 120000) (Some False))
   \<and> minutesUntilNext 120000 0 = 2
   \<and> selectNext mandarin 0 shadowed = NoneAvailable None"
  by code_simp

text \<open>
  Claim C7. On a corpus that is empty or in which every track of the language is
  mastered, the selection is the ordinary result \<open>NoneAvailable None\<close>, and
  \<^verbatim>\<open>fetchNextVocab\<close> of a signed-in user reports it as such.
\<close>

theorem mastered_corpus_none_available:
  assumes "filter (notMastered language) docs = []"
  shows "selectNext language now docs = NoneAvailable None
         \<and> selectNext language now [] = NoneAvailable None
         \<and> fetchNextVocab (Some u) (Collection docs) language now = Selected (NoneAvailable None)
         \<and> fetchNextVocab (Some u) (Collection []) language now = Selected (NoneAvailable None)"
proof -
  have new: "filter (isNewWord language) docs = []"
    using assms by (auto simp: filter_empty_conv isNewWord_def)
  have sel: "selectNext language now ds = NoneAvailable None"
    if "filter (notMastered language) ds = []" "filter (isNewWord language) ds = []" for ds
    using getDocs_none [OF that(1)] getDocs_none [OF that(2)]
    by (simp add: selectNext_def dueQuery_def newQuery_def nextQuery_def)
  have "selectNext language now docs = NoneAvailable None" using sel assms new by blast
  moreover have "selectNext language now [] = NoneAvailable None" using sel by simp
  ultimately show ?thesis by (simp add: fetchNextVocab_def)
qed

theorem mastered_corpus_none_available_witness:
  "filter (notMastered mandarin) allMastered = []
   \<and> selectNext mandarin 1000 allMastered = NoneAvailable None
   \<and> fetchNextVocab (Some someUser) (Collection allMastered) mandarin 1000
       = Selected (NoneAvailable None)"
proof -
  have h: "filter (notMastered mandarin) allMastered = []" by code_simp
  show ?thesis
    using h mastered_corpus_none_available [OF h, of 1000 someUser] by simp
qed

section \<open>Interval policy\<close>

lemma nextState_success:
  assumes "fullSuccess oc"
  shows "nextState oc p = ((if 5 \<le> p then 10080 else [60, 240, 1440, 4320, 10080] ! p), p + 1)"
  using assms by (simp add: nextState_def fullSuccess_def SUCCESS_SEQUENCE_def)

lemma runReviews_success:
  assumes "fullSuccess oc"
  shows "runReviews (replicate n oc) p = (map (\<lambda>k. fst (nextState oc k)) [p..<p + n], p + n)"
proof (induction n arbitrary: p)
  case 0
  show ?case by simp
next
  case (Suc n)
  obtain off where st: "nextState oc p = (off, Suc p)"
    using nextState_success [OF assms, of p] by simp
  then have off: "fst (nextState oc p) = off" by simp
  have "[p..<p + Suc n] = p # [Suc p..<Suc p + n]"
    by (simp add: upt_conv_Cons)
  then show ?case
    using Suc.IH [of "Suc p"] by (simp add: st del: upt_Suc)
qed

text \<open>
  Claim C1. For a full success the offsets at progress counts 0 to 6 are 60, 240, 1440,
  4320, 10080, 10080 and 10080 minutes: from the length of the sequence on, the lookup
  stays at its last entry. The new progress count is always the old one plus one, so a
  run of seven full successes from 0 hands out exactly these offsets and ends at 7. The
  sequence is the client's table, \<open>INITIAL\<close> followed by \<open>SUBSEQUENT\<close>.
\<close>

theorem success_run:
  assumes "fullSuccess oc"
  shows "map (\<lambda>p. fst (nextState oc p)) [0, 1, 2, 3, 4, 5, 6]
           = [60, 240, 1440, 4320, 10080, 10080, 10080]
         \<and> (\<forall>p. snd (nextState oc p) = p + 1)
         \<and> (\<forall>p\<ge>length SUCCESS_SEQUENCE. fst (nextState oc p) = last SUCCESS_SEQUENCE)
         \<and> runReviews (replicate 7 oc) 0 = ([60, 240, 1440, 4320, 10080, 10080, 10080], 7)
         \<and> SUCCESS_SEQUENCE = INITIAL intervals @ SUBSEQUENT intervals"
proof -
  have offs: "map (\<lambda>p. fst (nextState oc p)) [0, 1, 2, 3, 4, 5, 6]
           = [60, 240, 1440, 4320, 10080, 10080, 10080]"
    by (simp add: nextState_success [OF assms])
  have cnt: "\<forall>p. snd (nextState oc p) = p + 1"
    by (simp add: nextState_success [OF assms])
  have pin: "\<forall>p\<ge>length SUCCESS_SEQUENCE. fst (nextState oc p) = last SUCCESS_SEQUENCE"
    by (simp add: nextState_success [OF assms] SUCCESS_SEQUENCE_def)
  have "[0..<0 + 7] = [0, 1, 2, 3, 4, 5, 6::nat]"
    by (simp add: upt_rec)
  then have run: "runReviews (replicate 7 oc) 0 = ([60, 240, 1440, 4320, 10080, 10080, 10080], 7)"
    using runReviews_success [OF assms, of 7 0] offs by simp
  have tab: "SUCCESS_SEQUENCE = INITIAL intervals @ SUBSEQUENT intervals"
    by (simp add: SUCCESS_SEQUENCE_def intervals_def)
  show ?thesis using offs cnt pin run tab by (intro conjI)
qed

theorem success_run_witness:
  "fullSuccess fullSuccessOutcome
   \<and> runReviews (replicate 7 fullSuccessOutcome) 0
       = ([60, 240, 1440, 4320, 10080, 10080, 10080], 7)
   \<and> snd (nextState fullSuccessOutcome 6) = 7"
proof -
  have h: "fullSuccess fullSuccessOutcome"
    by (simp add: fullSuccess_def fullSuccessOutcome_def)
  show ?thesis using h success_run [OF h] by simp
qed

section \<open>Scheduler service\<close>

lemma updateTrack_known:
  assumes "filter (\<lambda>d. id d = itemId) docs \<noteq> []"
  shows "updateTrack itemId f docs = Inr (map (\<lambda>d. if id d = itemId then f d else d) docs)"
  using assms by (simp add: updateTrack_def)


lemma id_setNextReview [simp]: "id (setNextReview language t d) = id d"
  by (cases language) simp_all

lemma id_setMasteredField [simp]: "id (setMasteredField language b d) = id d"
  by (cases language) simp_all

lemma nextReviewField_setNextReview:
  "nextReviewField l (setNextReview language t d)
     = (if l = language then Some t else nextReviewField l d)"
  by (cases language; cases l) simp_all

lemma nextReviewField_setMasteredField [simp]:
  "nextReviewField l (setMasteredField language b d) = nextReviewField l d"
  by (cases language; cases l) simp_all


lemma masteredField_setNextReview [simp]:
  "masteredField l (setNextReview language t d) = masteredField l d"
  by (cases language; cases l) simp_all

lemma progressCount_setMasteredField [simp]:
  "progressCount l (setMasteredField language b d) = progressCount l d"
  by (cases language; cases l) simp_all

lemma progressCount_setNextReview [simp]:
  "progressCount l (setNextReview language t d) = progressCount l d"
  by (cases language; cases l) simp_all

lemma timestamp_setMasteredField [simp]:
  "timestamp (setMasteredField language b d) = timestamp d"
  by (cases language) simp_all

lemma filter_id_map:
  assumes "\<And>d. id (u d) = id d"
  shows "filter (\<lambda>d. id d = itemId) (map (\<lambda>d. if id d = itemId then u d else d) docs)
         = map u (filter (\<lambda>d. id d = itemId) docs)"
  using assms by (induction docs) auto

lemma read_after_update:
  assumes known: "filter (\<lambda>d. id d = itemId) docs \<noteq> []"
    and keep: "\<And>d. id (u d) = id d"
    and sets: "\<And>d. nextReviewField language (u d) = Some t"
  shows "readNextDueAt itemId language (map (\<lambda>d. if id d = itemId then u d else d) docs)
         = Inr (Some t)"
proof -
  obtain d r where dr: "filter (\<lambda>d. id d = itemId) docs = d # r"
    using known by (cases "filter (\<lambda>d. id d = itemId) docs") auto
  show ?thesis
    by (simp add: readNextDueAt_def filter_id_map [of u, OF keep] dr sets)
qed

lemma isoString_bounds: "isoString t \<le> t \<and> t < isoString t + 1000 \<and> isoString t mod 1000 = 0"
  by (simp add: isoString_def) presburger





lemma whereLe_setMasteredField [simp]:
  "whereLe l now (setMasteredField language b d) = whereLe l now d"
  by (simp add: whereLe_def)

lemma reviewTime_setMasteredField [simp]:
  "reviewTime l (setMasteredField language b d) = reviewTime l d"
  by (simp add: reviewTime_def)






text \<open>In the hour that repeats when the clocks go back, ten minutes after the change,
  five more minutes on the wall clock are read with the summer offset: the un-marked
  word gets a due time 55 minutes before the click and is served at once. Two minutes
  before the change, five more minutes on the wall clock lie 65 minutes ahead.\<close>

lemma unmark_in_repeated_hour:
  "addMinutes autumnZone 5 600000 = 600000 - 55 * 60 * 1000
   \<and> addMinutes autumnZone 5 (- 120000) = - 120000 + 65 * 60 * 1000
   \<and> unmarkMastered autumnZone 600000 ''w1'' mandarin stale
     = Inr [entry ''w1'' 0 (Some (- 2700000)) (Some False)]
   \<and> selectNext mandarin 600000 [entry ''w1'' 0 (Some (- 2700000)) (Some False)]
       = Due (entry ''w1'' 0 (Some (- 2700000)) (Some False))"
  by code_simp

text \<open>
  Claim C6. For an item of the store, \<^verbatim>\<open>overrideReviewTime\<close> with the timestamp \<open>T\<close>
  confirms \<open>T\<close>, and a read of the track right after returns \<open>T\<close>; so does the client's
  \<^verbatim>\<open>updateReviewTime\<close>. Through \<^verbatim>\<open>handleUpdateTime\<close> the time is first cut to the whole
  second at or before it, and that is the time confirmed and read.
\<close>

theorem override_then_read:
  assumes "filter (\<lambda>d. id d = itemId) docs \<noteq> []"
  shows "(\<exists>docs'. overrideReviewTime itemId language (Some T) docs = Inr (docs', T)
            \<and> readNextDueAt itemId language docs' = Inr (Some T))
         \<and> (\<exists>docs'. updateReviewTime itemId language T docs = Inr (docs', T)
            \<and> readNextDueAt itemId language docs' = Inr (Some T))
         \<and> (id v = itemId \<longrightarrow>
              (\<exists>docs'. handleUpdateTime (Some v) language T docs = (docs', Some (isoString T))
                 \<and> readNextDueAt itemId language docs' = Inr (Some (isoString T))))
         \<and> isoString T \<le> T \<and> T < isoString T + 1000 \<and> isoString T mod 1000 = 0"
proof -
  have ov: "\<exists>docs'. overrideReviewTime itemId language (Some t) docs = Inr (docs', t)
            \<and> readNextDueAt itemId language docs' = Inr (Some t)" for t
    using read_after_update [OF assms, of "setNextReview language t" language t]
    by (simp add: overrideReviewTime_def updateTrack_known [OF assms]
        nextReviewField_setNextReview)
  have up: "\<exists>docs'. updateReviewTime itemId language T docs = Inr (docs', T)
            \<and> readNextDueAt itemId language docs' = Inr (Some T)"
    using ov [of T] by (simp add: updateReviewTime_def)
  have hu: "\<exists>docs'. handleUpdateTime (Some v) language T docs = (docs', Some (isoString T))
                 \<and> readNextDueAt itemId language docs' = Inr (Some (isoString T))"
    if "id v = itemId"
  proof -
    from ov [of "isoString T"] obtain docs' where
      "overrideReviewTime itemId language (Some (isoString T)) docs = Inr (docs', isoString T)"
      "readNextDueAt itemId language docs' = Inr (Some (isoString T))"
      by blast
    then show ?thesis using that
      by (simp add: handleUpdateTime_def updateReviewTime_def)
  qed
  show ?thesis using ov [of T] up hu isoString_bounds [of T] by (intro conjI impI) simp_all
qed

theorem override_then_read_witness:
  "filter (\<lambda>d. id d = ''w1'') stale \<noteq> []
   \<and> overrideReviewTime ''w1'' mandarin (Some 7654321) stale
       = Inr ([entry ''w1'' 0 (Some 7654321) (Some True)], 7654321)
   \<and> readNextDueAt ''w1'' mandarin [entry ''w1'' 0 (Some 7654321) (Some True)]
       = Inr (Some 7654321)
   \<and> handleUpdateTime (Some (entry ''w1'' 0 (Some 1000) (Some True))) mandarin 7654321 stale
       = ([entry ''w1'' 0 (Some 7654000) (Some True)], Some 7654000)"
proof -
  have h: "filter (\<lambda>d. id d = ''w1'') stale \<noteq> []"
    by code_simp
  have o: "overrideReviewTime ''w1'' mandarin (Some 7654321) stale
       = Inr ([entry ''w1'' 0 (Some 7654321) (Some True)], 7654321)"
    by (simp add: overrideReviewTime_def updateTrack_def stale_def entry_def)
  have u: "handleUpdateTime (Some (entry ''w1'' 0 (Some 1000) (Some True))) mandarin 7654321 stale
       = ([entry ''w1'' 0 (Some 7654000) (Some True)], Some 7654000)"
    by (simp add: handleUpdateTime_def updateReviewTime_def overrideReviewTime_def
        updateTrack_def stale_def entry_def isoString_def)
  show ?thesis
    using h o u override_then_read [OF h, of mandarin 7654321] by auto
qed




section \<open>Sign-in\<close>

text \<open>
  Claim C9, as amended. A sign-in returns a user exactly when the popup yields a user
  whose address is the allowed one: compared as it is by the \<^verbatim>\<open>signIn\<close> that signs out
  first, and after lower-casing by the other. When the popup yields any other account,
  the session is signed out and the error \<^verbatim>\<open>Please sign in with wzhybrid@gmail.com\<close> is
  thrown. The allowed address itself passes both. After the first kind of sign-in the
  session holds no user or one with the allowed address; after the second, when the
  popup yielded an account, no user or one whose lower-cased address is the allowed one.
  The component itself checks no identity: whatever user the session reports, its
  listener stores that user and fetches the next word for it.
\<close>

theorem signIn_allowed_only:
  "(fst (signIn_select_account p s) = Inr u \<longleftrightarrow> p = PopupUser u \<and> email u = Some allowedEmail)
   \<and> (fst (signIn p s) = Inr u
        \<longleftrightarrow> p = PopupUser u \<and> map_option toLowerCase (email u) = Some allowedEmail)
   \<and> (p = PopupUser u \<and> email u \<noteq> Some allowedEmail \<longrightarrow>
        signIn_select_account p s
          = (Inl (Message ''Please sign in with wzhybrid@gmail.com''), None))
   \<and> (p = PopupUser u \<and> map_option toLowerCase (email u) \<noteq> Some allowedEmail \<longrightarrow>
        signIn p s = (Inl (Message ''Please sign in with wzhybrid@gmail.com''), None))
   \<and> (p = PopupUser u \<and> email u = Some allowedEmail \<longrightarrow>
        signIn p s = (Inr u, Some u) \<and> signIn_select_account p s = (Inr u, Some u))
   \<and> (\<forall>v. snd (signIn_select_account p s) = Some v \<longrightarrow> email v = Some allowedEmail)
   \<and> (\<forall>w v. p = PopupUser w \<and> snd (signIn p s) = Some v
        \<longrightarrow> map_option toLowerCase (email v) = Some allowedEmail)
   \<and> (\<forall>w. onAuthChange (Some w) (Collection docs) language now
            = (Some w, Fetch (Selected (selectNext language now docs))))"
proof -
  have low: "toLowerCase allowedEmail = allowedEmail"
    by code_simp
  have app: "onAuthChange (Some w) (Collection docs) language now
            = (Some w, Fetch (Selected (selectNext language now docs)))" for w
    by (simp add: onAuthChange_def fetchNextVocab_def)
  show ?thesis
  proof (cases p)
    case (PopupUser w)
    then show ?thesis
      by (auto simp: signIn_def signIn_select_account_def low app split: if_splits)
  next
    case (PopupFailed c)
    then show ?thesis
      by (simp add: signIn_def signIn_select_account_def app)
  qed
qed

theorem signIn_allowed_only_witness:
  "email someUser = Some allowedEmail
   \<and> signIn_select_account (PopupUser someUser) None = (Inr someUser, Some someUser)
   \<and> signIn (PopupUser someUser) None = (Inr someUser, Some someUser)
   \<and> email otherUser \<noteq> Some allowedEmail
   \<and> map_option toLowerCase (email otherUser) \<noteq> Some allowedEmail
   \<and> signIn_select_account (PopupUser otherUser) (Some someUser)
       = (Inl (Message ''Please sign in with wzhybrid@gmail.com''), None)
   \<and> signIn (PopupUser otherUser) (Some someUser)
       = (Inl (Message ''Please sign in with wzhybrid@gmail.com''), None)"
proof -
  have ok: "email someUser = Some allowedEmail"
    by code_simp
  have no: "email otherUser \<noteq> Some allowedEmail"
    by code_simp
  have nol: "map_option toLowerCase (email otherUser) \<noteq> Some allowedEmail"
    by code_simp
  note yes = signIn_allowed_only [of "PopupUser someUser" None someUser]
  note other = signIn_allowed_only [of "PopupUser otherUser" "Some someUser" otherUser]
  have both: "signIn (PopupUser someUser) None = (Inr someUser, Some someUser)
      \<and> signIn_select_account (PopupUser someUser) None = (Inr someUser, Some someUser)"
    using yes [THEN conjunct2, THEN conjunct2, THEN conjunct2, THEN conjunct2, THEN conjunct1,
      THEN mp, OF conjI [OF refl ok]]
    by this
  have r1: "signIn_select_account (PopupUser otherUser) (Some someUser)
       = (Inl (Message ''Please sign in with wzhybrid@gmail.com''), None)"
    using other [THEN conjunct2, THEN conjunct2, THEN conjunct1, THEN mp, OF conjI [OF refl no]]
    by this
  have r2: "signIn (PopupUser otherUser) (Some someUser)
       = (Inl (Message ''Please sign in with wzhybrid@gmail.com''), None)"
    using other [THEN conjunct2, THEN conjunct2, THEN conjunct2, THEN conjunct1, THEN mp,
      OF conjI [OF refl nol]]
    by this
  show ?thesis using ok both no nol r1 r2 by (intro conjI) (erule conjunct1 conjunct2 | assumption)+
qed

text \<open>
  Claim C9 as stated fails on a session that reports another account: its address is
  not the allowed one, in capitals or not, and the component stores it and selects a
  word of \<open>twoDue\<close> for it. It fails also on an account whose address is the allowed one
  written with capitals: the lower-casing \<^verbatim>\<open>signIn\<close> returns it and keeps it as the
  session's user.
\<close>

theorem other_identity_counterexample:
  "email otherUser \<noteq> Some ''wzhybrid@gmail.com''
   \<and> map_option toLowerCase (email otherUser) \<noteq> Some ''wzhybrid@gmail.com''
   \<and> onAuthChange (Some otherUser) (Collection twoDue) mandarin 1000
       = (Some otherUser, Fetch (Selected (Due (entry ''a'' 1 (Some 300) (Some False)))))
   \<and> email capitalUser \<noteq> Some ''wzhybrid@gmail.com''
   \<and> signIn (PopupUser capitalUser) None = (Inr capitalUser, Some capitalUser)"
  by code_simp

section \<open>External calls\<close>

lemma evaluationRequest_evaluateAnswerInit:
  "evaluationRequest (evaluateAnswerInit docId language answer difficulty (Some question))
     = Some (docId, language, answer, difficulty, question)"
  by (cases language) (simp_all add: evaluationRequest_def evaluateAnswerInit_def)

lemma evaluate_answer_judge_fails:
  assumes "judge question answer language = Inl e"
  shows "evaluate_answer judge now EVALUATE_URL
           (evaluateAnswerInit docId language answer difficulty (Some question)) docs
         = (NotOk ''RetryableIO'', docs)"
  using assms by (simp add: evaluate_answer_def evaluationRequest_evaluateAnswerInit)

lemma evaluateAnswer_not_ok:
  assumes "\<forall>r. fst (net EVALUATE_URL
                   (evaluateAnswerInit docId language answer difficulty q) docs) \<noteq> Ok r"
  shows "\<exists>e. fst (evaluateAnswer net docId language answer difficulty q docs) = Inl e"
proof (cases "net EVALUATE_URL (evaluateAnswerInit docId language answer difficulty q) docs")
  case (Pair r docs')
  then show ?thesis using assms by (cases r) (simp_all add: evaluateAnswer_def)
qed

lemma generateQuestion_not_ok:
  assumes "\<forall>r. fst (net FUNCTION_URL (generateQuestionInit word language c) docs) \<noteq> Ok r"
  shows "\<exists>e. fst (generateQuestion net word language c docs) = Inl e"
proof (cases "net FUNCTION_URL (generateQuestionInit word language c) docs")
  case (Pair r docs')
  then show ?thesis using assms by (cases r) (simp_all add: generateQuestion_def)
qed

lemma handleSubmit_judge_fails:
  assumes "currentVocab st = Some v" "currentQuestion st = Some question"
    and "judge question (userInput st) language = Inl e"
  shows "handleSubmit (evaluate_answer judge now) (Some usr) language docs st
         = (docs, st\<lparr>message := ''Error submitting answer''\<rparr>)"
  using assms
  by (simp add: handleSubmit_def evaluateAnswer_def evaluate_answer_judge_fails)

lemma generateQuestion_store:
  "snd (generateQuestion (generate_vocab_question generator) word language c docs) = docs"
  by (cases "generator (generateQuestionInit word language c)")
    (simp_all add: generateQuestion_def generate_vocab_question_def)

text \<open>
  Claim C8, as amended. The requests of \<^verbatim>\<open>evaluateAnswer\<close> and \<^verbatim>\<open>generateQuestion\<close>
  carry no abort signal, so no deadline, and a reply that is not OK is thrown as an
  error. When the judge fails or runs into its time limit, the evaluation call fails, no
  track of the store is changed and \<^verbatim>\<open>handleSubmit\<close> only replaces the message by
  \<^verbatim>\<open>Error submitting answer\<close>; a second attempt then runs as it would have run in place
  of the first. The question call never changes the store.
\<close>

theorem calls_without_deadline:
  "signal (evaluateAnswerInit docId language answer difficulty q) = None
   \<and> signal (generateQuestionInit word language c) = None
   \<and> ((\<forall>r. fst (net EVALUATE_URL
                  (evaluateAnswerInit docId language answer difficulty q) docs) \<noteq> Ok r)
        \<longrightarrow> (\<exists>e. fst (evaluateAnswer net docId language answer difficulty q docs) = Inl e))
   \<and> ((\<forall>r. fst (qnet FUNCTION_URL (generateQuestionInit word language c) docs) \<noteq> Ok r)
        \<longrightarrow> (\<exists>e. fst (generateQuestion qnet word language c docs) = Inl e))
   \<and> (judge question answer language = Inl e
        \<longrightarrow> evaluateAnswer (evaluate_answer judge now) docId language answer difficulty
              (Some question) docs
            = (Inl (Failed ''Failed to evaluate answer: RetryableIO''), docs))
   \<and> (currentVocab st = Some v \<and> currentQuestion st = Some question
        \<and> judge question (userInput st) language = Inl e
        \<longrightarrow> handleSubmit (evaluate_answer judge now) (Some usr) language docs st
              = (docs, st\<lparr>message := ''Error submitting answer''\<rparr>)
            \<and> handleSubmit (evaluate_answer judge' now') (Some usr) language
                (fst (handleSubmit (evaluate_answer judge now) (Some usr) language docs st)) st
              = handleSubmit (evaluate_answer judge' now') (Some usr) language docs st)
   \<and> snd (generateQuestion (generate_vocab_question generator) word language c docs) = docs"
proof (intro conjI impI)
  show "signal (evaluateAnswerInit docId language answer difficulty q) = None"
    by (simp add: evaluateAnswerInit_def)
  show "signal (generateQuestionInit word language c) = None"
    by (simp add: generateQuestionInit_def)
  show "snd (generateQuestion (generate_vocab_question generator) word language c docs) = docs"
    by (rule generateQuestion_store)
next
  assume "\<forall>r. fst (net EVALUATE_URL
                  (evaluateAnswerInit docId language answer difficulty q) docs) \<noteq> Ok r"
  then show "\<exists>e. fst (evaluateAnswer net docId language answer difficulty q docs) = Inl e"
    by (rule evaluateAnswer_not_ok)
next
  assume "\<forall>r. fst (qnet FUNCTION_URL (generateQuestionInit word language c) docs) \<noteq> Ok r"
  then show "\<exists>e. fst (generateQuestion qnet word language c docs) = Inl e"
    by (rule generateQuestion_not_ok)
next
  assume "judge question answer language = Inl e"
  then show "evaluateAnswer (evaluate_answer judge now) docId language answer difficulty
              (Some question) docs
            = (Inl (Failed ''Failed to evaluate answer: RetryableIO''), docs)"
    by (simp add: evaluateAnswer_def evaluate_answer_judge_fails)
next
  assume a: "currentVocab st = Some v \<and> currentQuestion st = Some question
        \<and> judge question (userInput st) language = Inl e"
  then have first: "handleSubmit (evaluate_answer judge now) (Some usr) language docs st
              = (docs, st\<lparr>message := ''Error submitting answer''\<rparr>)"
    by (intro handleSubmit_judge_fails) blast+
  then show "handleSubmit (evaluate_answer judge now) (Some usr) language docs st
              = (docs, st\<lparr>message := ''Error submitting answer''\<rparr>)" .
  show "handleSubmit (evaluate_answer judge' now') (Some usr) language
                (fst (handleSubmit (evaluate_answer judge now) (Some usr) language docs st)) st
              = handleSubmit (evaluate_answer judge' now') (Some usr) language docs st"
    by (simp only: first fst_conv)
qed

text \<open>With a judge out of time the store \<open>shelf\<close> and the waiting component stay but for
  the message; with a judge that finds a full success the track of \<open>w1\<close> is due an hour
  after the answer and its progress count is 1.\<close>

theorem calls_without_deadline_witness:
  "currentVocab answering = Some (entry ''w1'' 0 (Some 1000) None)
   \<and> currentQuestion answering = Some ''question''
   \<and> judgeTimesOut ''question'' (userInput answering) mandarin = Inl RetryableIO
   \<and> handleSubmit (evaluate_answer judgeTimesOut 5000000) (Some someUser) mandarin shelf answering
       = (shelf, answering\<lparr>message := ''Error submitting answer''\<rparr>)
   \<and> map (nextReviewField mandarin)
        (fst (handleSubmit (evaluate_answer judgeFluent 5000000) (Some someUser) mandarin shelf
                answering))
       = [Some 500, Some 8600000, Some 1000, Some 2000]
   \<and> map (progressCount mandarin)
        (fst (handleSubmit (evaluate_answer judgeFluent 5000000) (Some someUser) mandarin shelf
                answering))
       = [0, 1, 0, 0]"
proof -
  have v: "currentVocab answering = Some (entry ''w1'' 0 (Some 1000) None)"
    and q: "currentQuestion answering = Some ''question''"
    by (simp_all add: answering_def)
  have j: "judgeTimesOut ''question'' (userInput answering) mandarin = Inl RetryableIO"
    by (simp add: judgeTimesOut_def)
  note inst = calls_without_deadline [where judge = judgeTimesOut and st = answering
      and v = "entry ''w1'' 0 (Some 1000) None" and question = "''question''"
      and language = mandarin and e = RetryableIO and now = 5000000 and usr = someUser
      and docs = shelf]
  have fail: "handleSubmit (evaluate_answer judgeTimesOut 5000000) (Some someUser) mandarin shelf
        answering
       = (shelf, answering\<lparr>message := ''Error submitting answer''\<rparr>)"
    using inst [THEN conjunct2, THEN conjunct2, THEN conjunct2, THEN conjunct2, THEN conjunct2,
      THEN conjunct1, THEN mp, OF conjI [OF v conjI [OF q j]], THEN conjunct1]
    by this
  have due: "map (nextReviewField mandarin)
        (fst (handleSubmit (evaluate_answer judgeFluent 5000000) (Some someUser) mandarin shelf
                answering))
       = [Some 500, Some 8600000, Some 1000, Some 2000]"
    by code_simp
  have prog: "map (progressCount mandarin)
        (fst (handleSubmit (evaluate_answer judgeFluent 5000000) (Some someUser) mandarin shelf
                answering))
       = [0, 1, 0, 0]"
    by code_simp
  show ?thesis using v q j fail due prog by (intro conjI)
qed

text \<open>
  Claim C8 as stated fails on every call: the request of an evaluation and the request
  of a question, at concrete arguments, have no signal.
\<close>

theorem calls_without_deadline_counterexample:
  "signal (evaluateAnswerInit ''w1'' mandarin ''answer'' False (Some ''question'')) = None
   \<and> signal (generateQuestionInit ''w1'' cantonese None) = None"
  by (simp add: evaluateAnswerInit_def generateQuestionInit_def)

end
